theory Spec2Isabelle
  imports Main "HOL-Library.AList" "HOL-Library.Char_ord" "HOL-Library.List_Lexorder"
begin

section \<open>The rc mount control plane (cmd/mountlib/rc.go)\<close>

text \<open>
  The Go file keeps two package-level maps, each with a mutex of its own: \<open>mountFns\<close>
  (mount type \<open>\<rightharpoonup>\<close> mount function) and \<open>liveMounts\<close> (mount point \<open>\<rightharpoonup>\<close> MountInfo), and four
  rc handlers over them. The embedding passes the two maps along explicitly, together with
  the external world the mount and unmount functions act on and a log of the statements
  that touched a mutex, a map or an external function, in program order.
\<close>

subsection \<open>Data\<close>

text \<open>Go \<open>error\<close> values. \<open>errors.New msg\<close> is \<open>errors_New msg\<close>; the two parameter errors
  come from \<open>rc.Params\<close>; \<open>External\<close> stands for whatever a collaborator returns.\<close>

datatype error =
    errors_New string
  | ErrParamNotFound string
  | ErrParamInvalid string
  | External nat

text \<open>A call either returns or panics (Go's run-time panic on calling a nil function).\<close>

datatype 'a outcome = Return 'a | Panic string

definition nil_call :: string where
  "nil_call = ''invalid memory address or nil pointer dereference''"

text \<open>\<open>fs.Fs\<close>: only its methods \<open>Name()\<close> and \<open>String()\<close> are used.\<close>

record fs_Fs =
  Name :: string
  String :: string

text \<open>\<open>UnmountFn\<close> is \<open>func() error\<close>, \<open>MountFn\<close> is a function of the source and the mount
  point whose third result is the \<open>UnmountFn\<close> and whose last result is the error (the first
  two results are discarded by \<open>mountRc\<close>). Both act on the world \<open>'w\<close>. A Go function
  value may be nil: \<open>None\<close>.\<close>

type_synonym 'w UnmountFn = "'w \<Rightarrow> error option \<times> 'w"

type_synonym 'w MountFn = "fs_Fs \<Rightarrow> string \<Rightarrow> 'w \<Rightarrow> ('w UnmountFn option \<times> error option) \<times> 'w"

record 'w MountInfo =
  unmountFn :: "'w UnmountFn option"
  MountPoint :: string
  MountedOn :: nat
  Fs :: string

text \<open>\<open>rc.Params\<close> is \<open>map[string]interface{}\<close>; the values this file puts in or reads out
  are strings, string slices and MountInfo slices.\<close>

datatype 'w rc_value =
    VString string
  | VStrings "string list"
  | VMountInfos "'w MountInfo list"
  | VOther

type_synonym 'w Params = "(string \<times> 'w rc_value) list"

datatype mutex = mountFnsMutex | liveMountsMutex

datatype event =
    Lock mutex
  | Unlock mutex
  | ReadMountFns string
  | WriteMountFns string
  | RangeMountFns
  | ReadLiveMounts string
  | WriteLiveMounts string
  | DeleteLiveMounts string
  | RangeLiveMounts
  | CallMountFn string string
  | CallUnmountFn string
  | log_Printf error
  | fs_Debugf string string string

text \<open>The package state. A Go map is an association list read with \<open>map_of\<close> and written
  with \<open>AList.update\<close> and \<open>AList.delete\<close>; its order stands for the order in which
  \<open>range\<close> happens to visit the entries.\<close>

record 'w state =
  mountFns :: "(string \<times> 'w MountFn option) list"
  liveMounts :: "(string \<times> 'w MountInfo) list"
  world :: 'w
  trace :: "event list"

definition initial :: "'w \<Rightarrow> 'w state" where
  "initial w = \<lparr>mountFns = [], liveMounts = [], world = w, trace = []\<rparr>"

definition emit :: "event \<Rightarrow> 'w state \<Rightarrow> 'w state" where
  "emit e s = s\<lparr>trace := trace s @ [e]\<rparr>"

text \<open>The Go expression \<open>mountFns[k]\<close>: nil for a missing key and for a key stored with a
  nil function.\<close>

definition indexMountFns :: "'w state \<Rightarrow> string \<Rightarrow> 'w MountFn option" where
  "indexMountFns s k = (case map_of (mountFns s) k of None \<Rightarrow> None | Some f \<Rightarrow> f)"

subsection \<open>Collaborators outside this file\<close>

text \<open>Modelled from the spec: \<open>rc.Params.GetString\<close> (package fs/rc) is not part of this
  file. A required input that is absent is the MissingParameter error; a value that is not
  a string is an error too. As in Go the string result is empty when the error is set.\<close>

definition GetString :: "'w Params \<Rightarrow> string \<Rightarrow> string \<times> error option" where
  "GetString p key =
     (case map_of p key of
        None \<Rightarrow> ('''', Some (ErrParamNotFound key))
      | Some (VString v) \<Rightarrow> (v, None)
      | Some _ \<Rightarrow> ('''', Some (ErrParamInvalid key)))"

text \<open>\<open>rc.GetFs\<close>, the source resolver, is a parameter \<open>getFs\<close> of \<open>mountRc\<close>; so is the
  reading \<open>now\<close> of \<open>time.Now()\<close>.\<close>

subsection \<open>AddRc\<close>

definition AddRc :: "string \<Rightarrow> 'w MountFn option \<Rightarrow> 'w state \<Rightarrow> 'w state" where
  "AddRc mountUtilName mountFunction s =
     (let s1 = emit (Lock mountFnsMutex) s;
          s2 = emit (WriteMountFns mountUtilName)
                 (s1\<lparr>mountFns := AList.update mountUtilName mountFunction (mountFns s1)\<rparr>)
      in emit (Unlock mountFnsMutex) s2)"

subsection \<open>mountRc\<close>

text \<open>Lines 75 to 85: the mount type asked for, or the first of mount, cmount, mount2
  whose entry is not nil.\<close>

definition resolveMountType :: "'w Params \<Rightarrow> 'w state \<Rightarrow> string \<times> 'w state" where
  "resolveMountType p s =
     (let (mountType, err) = GetString p ''mountType'' in
      if err \<noteq> None \<or> mountType = '''' then
        (let s1 = emit (ReadMountFns ''mount'') s in
         if indexMountFns s1 ''mount'' \<noteq> None then (''mount'', s1)
         else
           (let s2 = emit (ReadMountFns ''cmount'') s1 in
            if indexMountFns s2 ''cmount'' \<noteq> None then (''cmount'', s2)
            else
              (let s3 = emit (ReadMountFns ''mount2'') s2 in
               if indexMountFns s3 ''mount2'' \<noteq> None then (''mount2'', s3)
               else (mountType, s3))))
      else (mountType, s))"

definition invalid_backend :: error where
  "invalid_backend = errors_New ''Mount Option specified is not registered, or is invalid''"

text \<open>Lines 93 to 111. The map is indexed twice, once for the test and once for the
  call; calling a nil function would panic.\<close>

definition mountWith ::
  "nat \<Rightarrow> fs_Fs \<Rightarrow> string \<Rightarrow> string \<Rightarrow> 'w state
     \<Rightarrow> ('w Params option \<times> error option) outcome \<times> 'w state" where
  "mountWith now fdst mountPoint mountType s =
     (let s1 = emit (ReadMountFns mountType) s in
      case indexMountFns s1 mountType of
        None \<Rightarrow> (Return (None, Some invalid_backend), s1)
      | Some _ \<Rightarrow>
          (let s2 = emit (ReadMountFns mountType) s1 in
           case indexMountFns s2 mountType of
             None \<Rightarrow> (Panic nil_call, s2)
           | Some f \<Rightarrow>
               (let s3 = emit (CallMountFn mountType mountPoint) s2;
                    ((unmountFn, err), w) = f fdst mountPoint (world s3);
                    s4 = emit (Lock liveMountsMutex) (s3\<lparr>world := w\<rparr>);
                    s5 = emit (WriteLiveMounts mountPoint)
                           (s4\<lparr>liveMounts :=
                                 AList.update mountPoint
                                   \<lparr>unmountFn = unmountFn, MountPoint = mountPoint,
                                    MountedOn = now, Fs = Name fdst\<rparr>
                                   (liveMounts s4)\<rparr>);
                    s6 = emit (Unlock liveMountsMutex) s5
                in case err of
                     Some e \<Rightarrow> (Return (None, Some e), emit (log_Printf e) s6)
                   | None \<Rightarrow>
                       (Return (None, None),
                        emit (fs_Debugf (String fdst) mountPoint mountType) s6))))"

definition mountRc ::
  "('w Params \<Rightarrow> error + fs_Fs) \<Rightarrow> nat \<Rightarrow> 'w Params \<Rightarrow> 'w state
     \<Rightarrow> ('w Params option \<times> error option) outcome \<times> 'w state" where
  "mountRc getFs now p s =
     (let (mountPoint, err) = GetString p ''mountPoint'' in
      case err of
        Some e \<Rightarrow> (Return (None, Some e), s)
      | None \<Rightarrow>
          (let (mountType, s1) = resolveMountType p s in
           case getFs p of
             Inl e \<Rightarrow> (Return (None, Some e), s1)
           | Inr fdst \<Rightarrow> mountWith now fdst mountPoint mountType s1))"

subsection \<open>unMountRc and performUnMount\<close>

definition mount_not_found :: error where
  "mount_not_found = errors_New ''mount not found''"

text \<open>The deferred \<open>Unlock\<close> runs on every way out, the panic included.\<close>

definition performUnMount :: "string \<Rightarrow> 'w state \<Rightarrow> error option outcome \<times> 'w state" where
  "performUnMount mountPoint s =
     (let s1 = emit (ReadLiveMounts mountPoint) (emit (Lock liveMountsMutex) s) in
      case map_of (liveMounts s1) mountPoint of
        Some mountInfo \<Rightarrow>
          (case unmountFn mountInfo of
             None \<Rightarrow> (Panic nil_call, emit (Unlock liveMountsMutex) s1)
           | Some f \<Rightarrow>
               (let s2 = emit (CallUnmountFn mountPoint) s1;
                    (err, w) = f (world s2);
                    s3 = s2\<lparr>world := w\<rparr>
                in case err of
                     Some e \<Rightarrow> (Return (Some e), emit (Unlock liveMountsMutex) s3)
                   | None \<Rightarrow>
                       (let s4 = emit (DeleteLiveMounts mountPoint)
                                   (s3\<lparr>liveMounts := AList.delete mountPoint (liveMounts s3)\<rparr>)
                        in (Return None, emit (Unlock liveMountsMutex) s4))))
      | None \<Rightarrow> (Return (Some mount_not_found), emit (Unlock liveMountsMutex) s1))"

definition unMountRc ::
  "'w Params \<Rightarrow> 'w state \<Rightarrow> ('w Params option \<times> error option) outcome \<times> 'w state" where
  "unMountRc p s =
     (let (mountPoint, err) = GetString p ''mountPoint'' in
      case err of
        Some e \<Rightarrow> (Return (None, Some e), s)
      | None \<Rightarrow>
          (case performUnMount mountPoint s of
             (Panic m, s1) \<Rightarrow> (Panic m, s1)
           | (Return (Some e), s1) \<Rightarrow> (Return (None, Some e), s1)
           | (Return None, s1) \<Rightarrow> (Return (None, None), s1)))"

subsection \<open>mountTypesRc and listMountsRc\<close>

text \<open>The two \<open>range\<close> loops, appending to the slice entry by entry.\<close>

fun rangeKeys :: "(string \<times> 'v) list \<Rightarrow> string list \<Rightarrow> string list" where
  "rangeKeys [] mountTypes = mountTypes"
| "rangeKeys ((mountType, _) # rest) mountTypes = rangeKeys rest (mountTypes @ [mountType])"

fun rangeValues :: "(string \<times> 'v) list \<Rightarrow> 'v list \<Rightarrow> 'v list" where
  "rangeValues [] mountTypes = mountTypes"
| "rangeValues ((_, a) # rest) mountTypes = rangeValues rest (mountTypes @ [a])"

text \<open>\<open>sort.Strings\<close> orders byte-wise, as the lexicographic order on \<open>char list\<close> does.\<close>

definition sort_Strings :: "string list \<Rightarrow> string list" where
  "sort_Strings xs = sort xs"

definition mountTypesRc ::
  "'w Params \<Rightarrow> 'w state \<Rightarrow> ('w Params option \<times> error option) \<times> 'w state" where
  "mountTypesRc p s =
     (let s1 = emit (RangeMountFns) (emit (Lock mountFnsMutex) s);
          mountTypes = rangeKeys (mountFns s1) [];
          s2 = emit (Unlock mountFnsMutex) s1
      in ((Some [(''mountTypes'', VStrings (sort_Strings mountTypes))], None), s2))"

definition listMountsRc ::
  "'w Params \<Rightarrow> 'w state \<Rightarrow> ('w Params option \<times> error option) \<times> 'w state" where
  "listMountsRc p s =
     (let s1 = emit (RangeLiveMounts) (emit (Lock liveMountsMutex) s);
          mountTypes = rangeValues (liveMounts s1) [];
          s2 = emit (Unlock liveMountsMutex) s1
      in ((Some [(''mountPoints'', VMountInfos mountTypes)], None), s2))"

text \<open>What a caller sees of a MountInfo: its exported fields under their JSON tags, in
  the order of the struct; \<open>unmountFn\<close> is unexported.\<close>

datatype json = JString string | JTime nat

definition MountInfo_json :: "'w MountInfo \<Rightarrow> (string \<times> json) list" where
  "MountInfo_json a =
     [(''MountPoint'', JString (MountPoint a)),
      (''MountedOn'', JTime (MountedOn a)),
      (''Fs'', JString (Fs a))]"

subsection \<open>Lock discipline on the log\<close>

text \<open>\<open>fnsAccessLocked held es\<close>: along \<open>es\<close>, started with \<open>mountFnsMutex\<close> held or not,
  every read, write and range of \<open>mountFns\<close> happens while \<open>mountFnsMutex\<close> is held.\<close>

fun fnsAccessLocked :: "bool \<Rightarrow> event list \<Rightarrow> bool" where
  "fnsAccessLocked held [] = True"
| "fnsAccessLocked held (Lock m # es) = fnsAccessLocked (held \<or> m = mountFnsMutex) es"
| "fnsAccessLocked held (Unlock m # es) = fnsAccessLocked (held \<and> m \<noteq> mountFnsMutex) es"
| "fnsAccessLocked held (ReadMountFns k # es) = (held \<and> fnsAccessLocked held es)"
| "fnsAccessLocked held (WriteMountFns k # es) = (held \<and> fnsAccessLocked held es)"
| "fnsAccessLocked held (RangeMountFns # es) = (held \<and> fnsAccessLocked held es)"
| "fnsAccessLocked held (_ # es) = fnsAccessLocked held es"

text \<open>\<open>callsOutsideFnsLock held es\<close>: along \<open>es\<close>, no mount function is called while
  \<open>mountFnsMutex\<close> is held.\<close>

fun callsOutsideFnsLock :: "bool \<Rightarrow> event list \<Rightarrow> bool" where
  "callsOutsideFnsLock held [] = True"
| "callsOutsideFnsLock held (Lock m # es) = callsOutsideFnsLock (held \<or> m = mountFnsMutex) es"
| "callsOutsideFnsLock held (Unlock m # es) = callsOutsideFnsLock (held \<and> m \<noteq> mountFnsMutex) es"
| "callsOutsideFnsLock held (CallMountFn t k # es) = (\<not> held \<and> callsOutsideFnsLock held es)"
| "callsOutsideFnsLock held (_ # es) = callsOutsideFnsLock held es"

text \<open>The calls of unmount functions and of mount functions recorded in a log.\<close>

fun unmountCalls :: "event list \<Rightarrow> string list" where
  "unmountCalls [] = []"
| "unmountCalls (CallUnmountFn k # es) = k # unmountCalls es"
| "unmountCalls (_ # es) = unmountCalls es"

fun mountCalls :: "event list \<Rightarrow> (string \<times> string) list" where
  "mountCalls [] = []"
| "mountCalls (CallMountFn t k # es) = (t, k) # mountCalls es"
| "mountCalls (_ # es) = mountCalls es"

section \<open>Fixtures and specification-level definitions\<close>

text \<open>The test \<open>mountRc\<close> makes of a mount type: its entry in \<open>mountFns\<close> is not nil.\<close>

definition registered :: "'w state \<Rightarrow> string \<Rightarrow> bool" where
  "registered s k = (indexMountFns s k \<noteq> None)"

text \<open>The selection in the specification's words: the first of mount, cmount, mount2,
  probed in this order, that is registered; the empty string when none is.\<close>

definition spec_firstAvailable :: "'w state \<Rightarrow> string" where
  "spec_firstAvailable s =
     (case find (registered s) [''mount'', ''cmount'', ''mount2''] of
        None \<Rightarrow> '''' | Some k \<Rightarrow> k)"

text \<open>The value of a field in the result of a handler.\<close>

definition resultField :: "('w Params option \<times> error option) \<Rightarrow> string \<Rightarrow> 'w rc_value option" where
  "resultField r k = (case fst r of None \<Rightarrow> None | Some out \<Rightarrow> map_of out k)"

text \<open>Mount functions, unmount functions, a source resolver, parameters and states on
  which the handlers are evaluated. The world is a counter that every successful mount or
  unmount advances.\<close>

definition okUnmount :: "nat UnmountFn" where
  "okUnmount w = (None, Suc w)"

definition busyUnmount :: "nat UnmountFn" where
  "busyUnmount w = (Some (External 16), w)"

definition okMount :: "nat MountFn" where
  "okMount fdst mountPoint w = ((Some okUnmount, None), Suc w)"

definition busyMount :: "nat MountFn" where
  "busyMount fdst mountPoint w = ((Some busyUnmount, None), Suc w)"

definition failMount :: "nat MountFn" where
  "failMount fdst mountPoint w = ((None, Some (External 5)), w)"

definition demoGetFs :: "nat Params \<Rightarrow> error + fs_Fs" where
  "demoGetFs p =
     (case GetString p ''fs'' of
        (n, None) \<Rightarrow> Inr \<lparr>Name = n, String = n\<rparr>
      | (_, Some e) \<Rightarrow> Inl e)"

definition demoParams :: "nat Params" where
  "demoParams = [(''fs'', VString ''mydrive:''), (''mountPoint'', VString ''/mnt/p'')]"

definition unmountParams :: "nat Params" where
  "unmountParams = [(''mountPoint'', VString ''/mnt/p'')]"

definition bogusParams :: "nat Params" where
  "bogusParams = [(''fs'', VString ''nonexistent:''), (''mountPoint'', VString ''/mnt/p''),
                  (''mountType'', VString ''bogus'')]"

definition noSuchFs :: "nat Params \<Rightarrow> error + fs_Fs" where
  "noSuchFs p = Inl (External 3)"

definition demoFs :: fs_Fs where
  "demoFs = \<lparr>Name = ''mydrive:'', String = ''mydrive:''\<rparr>"

definition withMount :: "nat MountFn \<Rightarrow> nat state" where
  "withMount f = AddRc ''mount'' (Some f) (initial 0)"

definition emptyNameRegistry :: "nat state" where
  "emptyNameRegistry = AddRc '''' (Some okMount) (initial 0)"

definition afterMount :: "nat MountFn \<Rightarrow> nat state" where
  "afterMount f = snd (mountRc demoGetFs 7 demoParams (withMount f))"

definition onlyCmount :: "nat state" where
  "onlyCmount = AddRc ''cmount'' (Some okMount) (initial 0)"

definition threeBackends :: "nat state" where
  "threeBackends =
     AddRc ''cmount'' (Some okMount)
       (AddRc ''mount'' (Some okMount) (AddRc ''mount2'' (Some okMount) (initial 0)))"

definition noParams :: "nat Params" where
  "noParams = []"

definition demoInfo :: "nat MountInfo" where
  "demoInfo = \<lparr>unmountFn = Some okUnmount, MountPoint = ''/mnt/p'', MountedOn = 7,
               Fs = ''mydrive:''\<rparr>"

section \<open>Properties\<close>

lemma emit_simps [simp]:
  "mountFns (emit e s) = mountFns s"
  "liveMounts (emit e s) = liveMounts s"
  "world (emit e s) = world s"
  "trace (emit e s) = trace s @ [e]"
  by (simp_all add: emit_def)

lemma indexMountFns_emit [simp]: "indexMountFns (emit e s) k = indexMountFns s k"
  by (simp add: indexMountFns_def)

lemma indexMountFns_cong:
  "mountFns s' = mountFns s \<Longrightarrow> indexMountFns s' k = indexMountFns s k"
  by (simp add: indexMountFns_def)

lemma resolveMountType_frame:
  "mountFns (snd (resolveMountType p s)) = mountFns s \<and>
   liveMounts (snd (resolveMountType p s)) = liveMounts s \<and>
   world (snd (resolveMountType p s)) = world s"
  by (simp add: resolveMountType_def Let_def split: prod.splits)

lemma resolveMountType_index [simp]:
  "indexMountFns (snd (resolveMountType p s)) k = indexMountFns s k"
  by (rule indexMountFns_cong) (simp add: resolveMountType_frame)

lemma mountCalls_append [simp]: "mountCalls (xs @ ys) = mountCalls xs @ mountCalls ys"
  by (induction xs rule: mountCalls.induct) simp_all

lemma unmountCalls_append [simp]: "unmountCalls (xs @ ys) = unmountCalls xs @ unmountCalls ys"
  by (induction xs rule: unmountCalls.induct) simp_all

lemma resolveMountType_calls:
  "mountCalls (trace (snd (resolveMountType p s))) = mountCalls (trace s) \<and>
   unmountCalls (trace (snd (resolveMountType p s))) = unmountCalls (trace s)"
  by (simp add: resolveMountType_def Let_def split: prod.splits)

lemma resolveMountType_auto:
  assumes "fst (GetString p ''mountType'') = ''''"
  shows "fst (resolveMountType p s) = spec_firstAvailable s"
proof (cases "GetString p ''mountType''")
  case (Pair t e)
  with assms have "t = ''''" by simp
  with Pair show ?thesis
    by (simp add: resolveMountType_def spec_firstAvailable_def registered_def Let_def)
qed

lemma resolveMountType_explicit:
  "GetString p ''mountType'' = (t, None) \<Longrightarrow> t \<noteq> '''' \<Longrightarrow>
   resolveMountType p s = (t, s)"
  by (simp add: resolveMountType_def Let_def)

lemma mountWith_registered:
  assumes "indexMountFns s t = Some f" and "f fdst mp (world s) = ((u, err), w)"
  shows "fst (mountWith now fdst mp t s) = Return (None, err) \<and>
         liveMounts (snd (mountWith now fdst mp t s)) =
           AList.update mp \<lparr>unmountFn = u, MountPoint = mp, MountedOn = now, Fs = Name fdst\<rparr>
             (liveMounts s) \<and>
         mountFns (snd (mountWith now fdst mp t s)) = mountFns s \<and>
         world (snd (mountWith now fdst mp t s)) = w \<and>
         mountCalls (trace (snd (mountWith now fdst mp t s))) = mountCalls (trace s) @ [(t, mp)] \<and>
         unmountCalls (trace (snd (mountWith now fdst mp t s))) = unmountCalls (trace s)"
  using assms by (cases err) (simp_all add: mountWith_def Let_def)

lemma mountWith_unregistered:
  assumes "indexMountFns s t = None"
  shows "fst (mountWith now fdst mp t s) = Return (None, Some invalid_backend) \<and>
         liveMounts (snd (mountWith now fdst mp t s)) = liveMounts s \<and>
         mountFns (snd (mountWith now fdst mp t s)) = mountFns s \<and>
         world (snd (mountWith now fdst mp t s)) = world s \<and>
         mountCalls (trace (snd (mountWith now fdst mp t s))) = mountCalls (trace s) \<and>
         unmountCalls (trace (snd (mountWith now fdst mp t s))) = unmountCalls (trace s)"
  using assms by (simp add: mountWith_def Let_def)

lemma mountRc_reaches:
  assumes "GetString p ''mountPoint'' = (mp, None)" and "getFs p = Inr fdst"
  shows "mountRc getFs now p s =
           mountWith now fdst mp (fst (resolveMountType p s)) (snd (resolveMountType p s))"
  using assms by (simp add: mountRc_def Let_def split: prod.splits)

lemma map_of_delete_same [simp]: "map_of (AList.delete k al) k = None"
  by (simp add: AList.delete_conv')

lemma performUnMount_absent:
  assumes "map_of (liveMounts s) mp = None"
  shows "fst (performUnMount mp s) = Return (Some mount_not_found) \<and>
         liveMounts (snd (performUnMount mp s)) = liveMounts s \<and>
         mountFns (snd (performUnMount mp s)) = mountFns s \<and>
         world (snd (performUnMount mp s)) = world s \<and>
         unmountCalls (trace (snd (performUnMount mp s))) = unmountCalls (trace s)"
  using assms by (simp add: performUnMount_def Let_def)

lemma performUnMount_nil:
  assumes "map_of (liveMounts s) mp = Some mi" and "unmountFn mi = None"
  shows "fst (performUnMount mp s) = Panic nil_call \<and>
         liveMounts (snd (performUnMount mp s)) = liveMounts s \<and>
         world (snd (performUnMount mp s)) = world s \<and>
         unmountCalls (trace (snd (performUnMount mp s))) = unmountCalls (trace s)"
  using assms by (simp add: performUnMount_def Let_def)

lemma performUnMount_present:
  assumes "map_of (liveMounts s) mp = Some mi" and "unmountFn mi = Some u"
    and "u (world s) = (r, w)"
  shows "fst (performUnMount mp s) = Return r \<and>
         liveMounts (snd (performUnMount mp s)) =
           (if r = None then AList.delete mp (liveMounts s) else liveMounts s) \<and>
         mountFns (snd (performUnMount mp s)) = mountFns s \<and>
         world (snd (performUnMount mp s)) = w \<and>
         unmountCalls (trace (snd (performUnMount mp s))) = unmountCalls (trace s) @ [mp]"
  using assms by (cases r) (simp_all add: performUnMount_def Let_def)

lemma unMountRc_reaches:
  assumes "GetString p ''mountPoint'' = (mp, None)"
  shows "fst (unMountRc p s) =
           (case fst (performUnMount mp s) of
              Panic m \<Rightarrow> Panic m | Return r \<Rightarrow> Return (None, r)) \<and>
         snd (unMountRc p s) = snd (performUnMount mp s)"
  using assms
  by (simp add: unMountRc_def Let_def split: prod.splits outcome.splits option.splits)

lemmas fixture_defs =
  unmountParams_def bogusParams_def noSuchFs_def demoFs_def withMount_def demoParams_def
  demoGetFs_def okMount_def okUnmount_def busyMount_def busyUnmount_def failMount_def
  AddRc_def initial_def GetString_def indexMountFns_def emit_def Let_def

lemma demo_mountPoint: "GetString demoParams ''mountPoint'' = (''/mnt/p'', None)"
  by (simp add: fixture_defs)

lemma demo_getFs: "demoGetFs demoParams = Inr demoFs"
  by (simp add: fixture_defs)

lemma demo_unmount_mountPoint: "GetString unmountParams ''mountPoint'' = (''/mnt/p'', None)"
  by (simp add: fixture_defs)

lemma demo_resolve: "fst (resolveMountType demoParams (withMount f)) = ''mount''"
  by (simp add: resolveMountType_def fixture_defs)

lemma demo_index: "indexMountFns (withMount f) ''mount'' = Some f"
  by (simp add: fixture_defs)

lemma demo_world: "world (withMount f) = 0"
  by (simp add: fixture_defs)

text \<open>
  Claim C1. Whenever \<open>mountRc\<close> invokes a mount function (the resolved mount type has a
  non-nil entry in \<open>mountFns\<close>), it writes a MountInfo holding the returned unmount function,
  the time \<open>now\<close>, the name of the source and the mount point under the mount point in
  \<open>liveMounts\<close>, whatever error \<open>err\<close> the mount function returned; the handler returns
  that \<open>err\<close>, so in the error case the caller gets the backend's error and the record stays.
\<close>

theorem mountRc_records_despite_error:
  assumes "GetString p ''mountPoint'' = (mp, None)" and "getFs p = Inr fdst"
    and "indexMountFns s (fst (resolveMountType p s)) = Some f"
    and "f fdst mp (world s) = ((u, err), w)"
  shows "fst (mountRc getFs now p s) = Return (None, err) \<and>
         map_of (liveMounts (snd (mountRc getFs now p s))) mp =
           Some \<lparr>unmountFn = u, MountPoint = mp, MountedOn = now, Fs = Name fdst\<rparr> \<and>
         mountCalls (trace (snd (mountRc getFs now p s))) =
           mountCalls (trace s) @ [(fst (resolveMountType p s), mp)]"
proof -
  let ?t = "fst (resolveMountType p s)" and ?s1 = "snd (resolveMountType p s)"
  have run: "mountRc getFs now p s = mountWith now fdst mp ?t ?s1"
    using assms(1,2) by (rule mountRc_reaches)
  have idx: "indexMountFns ?s1 ?t = Some f"
    using assms(3) by simp
  have call: "f fdst mp (world ?s1) = ((u, err), w)"
    using assms(4) by (simp add: resolveMountType_frame)
  from mountWith_registered [OF idx call, of now]
  show ?thesis
    by (simp add: run resolveMountType_frame resolveMountType_calls update_conv')
qed

theorem mountRc_records_despite_error_witness:
  "GetString demoParams ''mountPoint'' = (''/mnt/p'', None) \<and>
   demoGetFs demoParams = Inr demoFs \<and>
   indexMountFns (withMount failMount) (fst (resolveMountType demoParams (withMount failMount)))
     = Some failMount \<and>
   failMount demoFs ''/mnt/p'' (world (withMount failMount)) = ((None, Some (External 5)), 0) \<and>
   fst (mountRc demoGetFs 7 demoParams (withMount failMount)) = Return (None, Some (External 5)) \<and>
   map_of (liveMounts (snd (mountRc demoGetFs 7 demoParams (withMount failMount)))) ''/mnt/p'' =
     Some \<lparr>unmountFn = None, MountPoint = ''/mnt/p'', MountedOn = 7, Fs = Name demoFs\<rparr>"
proof -
  have h3: "indexMountFns (withMount failMount)
              (fst (resolveMountType demoParams (withMount failMount))) = Some failMount"
    by (simp add: demo_resolve demo_index)
  have h4: "failMount demoFs ''/mnt/p'' (world (withMount failMount))
              = ((None, Some (External 5)), 0)"
    by (simp add: demo_world failMount_def)
  from mountRc_records_despite_error
         [where getFs = demoGetFs and f = failMount and now = 7,
          OF demo_mountPoint demo_getFs h3 h4]
  show ?thesis using demo_mountPoint demo_getFs h3 h4 by blast
qed

lemma demo_run:
  "mountRc demoGetFs now demoParams s =
     mountWith now demoFs ''/mnt/p'' (fst (resolveMountType demoParams s))
       (snd (resolveMountType demoParams s))"
  by (rule mountRc_reaches [where getFs = demoGetFs, OF demo_mountPoint demo_getFs])

lemma demo_mount:
  assumes "f demoFs ''/mnt/p'' 0 = ((u, err), w)"
  shows "fst (mountRc demoGetFs 7 demoParams (withMount f)) = Return (None, err) \<and>
         map_of (liveMounts (afterMount f)) ''/mnt/p'' =
           Some \<lparr>unmountFn = u, MountPoint = ''/mnt/p'', MountedOn = 7, Fs = ''mydrive:''\<rparr> \<and>
         world (afterMount f) = w \<and>
         unmountCalls (trace (afterMount f)) = []"
proof -
  let ?s1 = "snd (resolveMountType demoParams (withMount f))"
  have idx: "indexMountFns ?s1 ''mount'' = Some f"
    by (simp add: demo_index)
  have call: "f demoFs ''/mnt/p'' (world ?s1) = ((u, err), w)"
    using assms by (simp add: resolveMountType_frame demo_world)
  have quiet: "unmountCalls (trace (withMount f)) = []"
    by (simp add: fixture_defs)
  from mountWith_registered [OF idx call, of 7]
  show ?thesis
    by (simp add: afterMount_def demo_run demo_resolve update_conv' demoFs_def
          resolveMountType_calls quiet)
qed

text \<open>
  Claim C2. \<open>performUnMount\<close> calls the stored \<open>unmountFn\<close> with no test for nil: on a mount
  point whose record holds a nil \<open>unmountFn\<close> the call panics (a nil function call), it does
  not return an error, and the record stays. The witness reaches such a record through a
  \<open>mountRc\<close> whose mount function failed.
\<close>

theorem performUnMount_nil_unmountFn_panics:
  assumes "GetString p ''mountPoint'' = (mp, None)"
    and "map_of (liveMounts s) mp = Some mountInfo" and "unmountFn mountInfo = None"
  shows "fst (performUnMount mp s) = Panic nil_call \<and>
         fst (unMountRc p s) = Panic nil_call \<and>
         liveMounts (snd (unMountRc p s)) = liveMounts s"
  using performUnMount_nil [OF assms(2,3)] unMountRc_reaches [OF assms(1), of s]
  by simp

theorem performUnMount_nil_unmountFn_panics_witness:
  "GetString unmountParams ''mountPoint'' = (''/mnt/p'', None) \<and>
   fst (mountRc demoGetFs 7 demoParams (withMount failMount)) = Return (None, Some (External 5)) \<and>
   map_of (liveMounts (afterMount failMount)) ''/mnt/p'' =
     Some \<lparr>unmountFn = None, MountPoint = ''/mnt/p'', MountedOn = 7, Fs = ''mydrive:''\<rparr> \<and>
   fst (performUnMount ''/mnt/p'' (afterMount failMount)) = Panic nil_call \<and>
   fst (unMountRc unmountParams (afterMount failMount)) = Panic nil_call"
proof -
  have rec: "map_of (liveMounts (afterMount failMount)) ''/mnt/p'' =
     Some \<lparr>unmountFn = None, MountPoint = ''/mnt/p'', MountedOn = 7, Fs = ''mydrive:''\<rparr>"
    using demo_mount [of failMount None "Some (External 5)" 0] by (simp add: failMount_def)
  have nil: "unmountFn \<lparr>unmountFn = None :: nat UnmountFn option, MountPoint = ''/mnt/p'',
                        MountedOn = 7, Fs = ''mydrive:''\<rparr> = None"
    by simp
  have failed: "fst (mountRc demoGetFs 7 demoParams (withMount failMount))
                  = Return (None, Some (External 5))"
    using demo_mount [of failMount None "Some (External 5)" 0] by (simp add: failMount_def)
  from performUnMount_nil_unmountFn_panics [OF demo_unmount_mountPoint rec nil]
  show ?thesis using demo_unmount_mountPoint rec failed by blast
qed

lemma mountRc_unregistered:
  assumes "indexMountFns s (fst (resolveMountType p s)) = None"
  shows "(\<exists>e. fst (mountRc getFs now p s) = Return (None, Some e)) \<and>
         liveMounts (snd (mountRc getFs now p s)) = liveMounts s \<and>
         world (snd (mountRc getFs now p s)) = world s \<and>
         mountCalls (trace (snd (mountRc getFs now p s))) = mountCalls (trace s)"
proof (cases "GetString p ''mountPoint''")
  case (Pair mp e)
  show ?thesis
  proof (cases e)
    case (Some a)
    with Pair show ?thesis by (simp add: mountRc_def)
  next
    case None
    show ?thesis
    proof (cases "getFs p")
      case (Inl a)
      with Pair None show ?thesis
        by (simp add: mountRc_def Let_def resolveMountType_frame resolveMountType_calls
              split: prod.splits)
           (metis resolveMountType_frame resolveMountType_calls snd_conv)
    next
      case (Inr fdst)
      have run: "mountRc getFs now p s =
          mountWith now fdst mp (fst (resolveMountType p s)) (snd (resolveMountType p s))"
        using Pair None Inr by (simp add: mountRc_reaches [where getFs = getFs])
      have idx: "indexMountFns (snd (resolveMountType p s)) (fst (resolveMountType p s)) = None"
        using assms by simp
      from mountWith_unregistered [OF idx, of now fdst mp]
      show ?thesis
        by (simp add: run resolveMountType_frame resolveMountType_calls)
    qed
  qed
qed

lemma mountRc_unregistered_invalid:
  assumes "indexMountFns s (fst (resolveMountType p s)) = None"
    and "\<exists>mp. GetString p ''mountPoint'' = (mp, None)" and "\<exists>fdst. getFs p = Inr fdst"
  shows "fst (mountRc getFs now p s) = Return (None, Some invalid_backend)"
proof -
  from assms(2,3) obtain mp fdst
    where mp: "GetString p ''mountPoint'' = (mp, None)" and fs: "getFs p = Inr fdst"
    by blast
  have idx: "indexMountFns (snd (resolveMountType p s)) (fst (resolveMountType p s)) = None"
    using assms(1) by simp
  from mountWith_unregistered [OF idx, of now fdst mp]
       mountRc_reaches [where getFs = getFs, OF mp fs, of now s]
  show ?thesis by simp
qed

text \<open>
  Claim C3, as amended. When the requested or selected mount type has no non-nil entry in
  \<open>mountFns\<close>, \<open>mountRc\<close> returns an error, calls no mount function, and leaves \<open>liveMounts\<close>
  and the world unchanged; the error is the invalid-backend error whenever the mountPoint
  parameter is present and the source resolves. (As stated, for every such call, the claim
  fails: the parameter and the source are checked first, and their error is returned.)
\<close>

theorem mountRc_unregistered_backend:
  assumes "indexMountFns s (fst (resolveMountType p s)) = None"
  shows "(\<exists>e. fst (mountRc getFs now p s) = Return (None, Some e)) \<and>
         liveMounts (snd (mountRc getFs now p s)) = liveMounts s \<and>
         world (snd (mountRc getFs now p s)) = world s \<and>
         mountCalls (trace (snd (mountRc getFs now p s))) = mountCalls (trace s) \<and>
         ((\<exists>mp. GetString p ''mountPoint'' = (mp, None)) \<and> (\<exists>fdst. getFs p = Inr fdst)
            \<longrightarrow> fst (mountRc getFs now p s) = Return (None, Some invalid_backend))"
  using mountRc_unregistered [OF assms, of getFs now]
    mountRc_unregistered_invalid [OF assms, where getFs = getFs and now = now]
  by blast

lemma bogus_resolve: "fst (resolveMountType bogusParams s) = ''bogus''"
  by (simp add: resolveMountType_def fixture_defs)

lemma bogus_index: "indexMountFns (withMount f) ''bogus'' = None"
  by (simp add: fixture_defs)

lemma bogus_mountPoint: "GetString bogusParams ''mountPoint'' = (''/mnt/p'', None)"
  by (simp add: fixture_defs)

lemma bogus_getFs: "demoGetFs bogusParams = Inr \<lparr>Name = ''nonexistent:'', String = ''nonexistent:''\<rparr>"
  by (simp add: fixture_defs)

theorem mountRc_unregistered_backend_witness:
  "indexMountFns (withMount okMount) (fst (resolveMountType bogusParams (withMount okMount))) = None \<and>
   GetString bogusParams ''mountPoint'' = (''/mnt/p'', None) \<and>
   demoGetFs bogusParams = Inr \<lparr>Name = ''nonexistent:'', String = ''nonexistent:''\<rparr> \<and>
   fst (mountRc demoGetFs 7 bogusParams (withMount okMount)) = Return (None, Some invalid_backend) \<and>
   liveMounts (snd (mountRc demoGetFs 7 bogusParams (withMount okMount))) = liveMounts (withMount okMount) \<and>
   mountCalls (trace (snd (mountRc demoGetFs 7 bogusParams (withMount okMount))))
     = mountCalls (trace (withMount okMount))"
proof -
  have h: "indexMountFns (withMount okMount)
             (fst (resolveMountType bogusParams (withMount okMount))) = None"
    by (simp add: bogus_resolve bogus_index)
  from mountRc_unregistered_backend [where getFs = demoGetFs and now = 7, OF h]
  show ?thesis using h bogus_mountPoint bogus_getFs by blast
qed

theorem mountRc_unregistered_backend_counterexample:
  "indexMountFns (withMount okMount) (fst (resolveMountType bogusParams (withMount okMount))) = None \<and>
   fst (mountRc noSuchFs 7 bogusParams (withMount okMount)) = Return (None, Some (External 3)) \<and>
   fst (mountRc noSuchFs 7 bogusParams (withMount okMount)) \<noteq> Return (None, Some invalid_backend)"
  by (simp add: bogus_resolve bogus_index mountRc_def bogus_mountPoint noSuchFs_def
        invalid_backend_def split: prod.splits)

lemma spec_firstAvailable_cases:
  "spec_firstAvailable s =
     (if registered s ''mount'' then ''mount''
      else if registered s ''cmount'' then ''cmount''
      else if registered s ''mount2'' then ''mount2'' else '''')"
  by (simp add: spec_firstAvailable_def)

lemma omitted_GetString:
  assumes "map_of p ''mountType'' = None \<or> map_of p ''mountType'' = Some (VString '''')"
  shows "fst (GetString p ''mountType'') = ''''"
  using assms by (auto simp: GetString_def)

text \<open>
  Claim C4, as amended. When the mountType parameter is omitted or empty, the mount type
  selected is the first of mount, cmount, mount2 with a non-nil entry in \<open>mountFns\<close>
  (\<open>spec_firstAvailable\<close>); with only cmount registered it is cmount; with none of the three it is
  the empty string, and then \<open>mountRc\<close> fails with the invalid-backend error provided no mount
  function is registered under the empty name (and the mountPoint parameter is present and
  the source resolves). (As stated the claim fails when a mount function is registered under
  the empty name: the lookup of the empty selection then succeeds.)
\<close>

theorem resolveMountType_priority:
  assumes "map_of p ''mountType'' = None \<or> map_of p ''mountType'' = Some (VString '''')"
  shows "fst (resolveMountType p s) = spec_firstAvailable s \<and>
         (\<not> registered s ''mount'' \<and> registered s ''cmount''
            \<longrightarrow> fst (resolveMountType p s) = ''cmount'') \<and>
         (\<not> registered s ''mount'' \<and> \<not> registered s ''cmount'' \<and> \<not> registered s ''mount2''
            \<longrightarrow> fst (resolveMountType p s) = '''' \<and>
                (\<not> registered s '''' \<and> (\<exists>mp. GetString p ''mountPoint'' = (mp, None)) \<and>
                 (\<exists>fdst. getFs p = Inr fdst)
                   \<longrightarrow> fst (mountRc getFs now p s) = Return (None, Some invalid_backend)))"
proof -
  have sel: "fst (resolveMountType p s) = spec_firstAvailable s"
    using omitted_GetString [OF assms] by (rule resolveMountType_auto)
  have "fst (mountRc getFs now p s) = Return (None, Some invalid_backend)"
    if "spec_firstAvailable s = ''''" and "\<not> registered s ''''"
      and "\<exists>mp. GetString p ''mountPoint'' = (mp, None)" and "\<exists>fdst. getFs p = Inr fdst"
  proof -
    have "indexMountFns s (fst (resolveMountType p s)) = None"
      using that(1,2) sel by (simp add: registered_def)
    from mountRc_unregistered_invalid [where getFs = getFs, OF this that(3,4)] show ?thesis .
  qed
  with sel show ?thesis by (auto simp: spec_firstAvailable_cases)
qed

lemma onlyCmount_registered:
  "\<not> registered onlyCmount ''mount'' \<and> registered onlyCmount ''cmount''"
  by (simp add: registered_def onlyCmount_def fixture_defs)

theorem resolveMountType_priority_witness:
  "(map_of demoParams ''mountType'' = None \<or> map_of demoParams ''mountType'' = Some (VString '''')) \<and>
   \<not> registered onlyCmount ''mount'' \<and> registered onlyCmount ''cmount'' \<and>
   fst (resolveMountType demoParams onlyCmount) = ''cmount'' \<and>
   \<not> registered (initial (0::nat)) ''mount'' \<and> \<not> registered (initial (0::nat)) ''cmount'' \<and>
   \<not> registered (initial (0::nat)) ''mount2'' \<and> \<not> registered (initial (0::nat)) '''' \<and>
   fst (resolveMountType demoParams (initial (0::nat))) = '''' \<and>
   fst (mountRc demoGetFs 7 demoParams (initial 0)) = Return (None, Some invalid_backend)"
proof -
  have h: "map_of demoParams ''mountType'' = None \<or>
           map_of demoParams ''mountType'' = Some (VString '''')"
    by (simp add: demoParams_def)
  have none: "\<not> registered (initial (0::nat)) ''mount'' \<and> \<not> registered (initial (0::nat)) ''cmount'' \<and>
              \<not> registered (initial (0::nat)) ''mount2'' \<and> \<not> registered (initial (0::nat)) ''''"
    by (simp add: registered_def fixture_defs)
  from resolveMountType_priority [where getFs = demoGetFs and now = 7 and s = onlyCmount, OF h]
       resolveMountType_priority [where getFs = demoGetFs and now = 7 and s = "initial 0", OF h]
  show ?thesis using h none onlyCmount_registered demo_mountPoint demo_getFs by blast
qed

theorem resolveMountType_priority_counterexample:
  "map_of demoParams ''mountType'' = None \<and>
   \<not> registered emptyNameRegistry ''mount'' \<and> \<not> registered emptyNameRegistry ''cmount'' \<and>
   \<not> registered emptyNameRegistry ''mount2'' \<and>
   fst (resolveMountType demoParams emptyNameRegistry) = '''' \<and>
   fst (mountRc demoGetFs 7 demoParams emptyNameRegistry) = Return (None, None) \<and>
   mountCalls (trace (snd (mountRc demoGetFs 7 demoParams emptyNameRegistry))) = [('''', ''/mnt/p'')]"
  by (simp add: registered_def emptyNameRegistry_def mountRc_def resolveMountType_def
        mountWith_def fixture_defs)

lemma performUnMount_success_deletes:
  assumes "fst (performUnMount mp s) = Return None"
  shows "map_of (liveMounts (snd (performUnMount mp s))) mp = None"
proof (cases "map_of (liveMounts s) mp")
  case None
  from performUnMount_absent [OF None] assms show ?thesis by simp
next
  case (Some mi)
  show ?thesis
  proof (cases "unmountFn mi")
    case None
    from performUnMount_nil [OF Some None] assms show ?thesis by simp
  next
    case (Some u)
    obtain r w where call: "u (world s) = (r, w)" by (cases "u (world s)")
    from performUnMount_present [OF \<open>map_of (liveMounts s) mp = Some mi\<close> Some call] assms
    show ?thesis by simp
  qed
qed

text \<open>
  Claim C5. \<open>unMountRc\<close> on a mount point with no record in \<open>liveMounts\<close> fails with the
  mount-not-found error, leaves \<open>liveMounts\<close> and the world unchanged and calls no unmount
  function; and after an \<open>unMountRc\<close> of a mount point that succeeded, the next \<open>unMountRc\<close>
  of the same mount point fails with mount-not-found.
\<close>

theorem unMountRc_not_found:
  assumes "GetString p ''mountPoint'' = (mp, None)"
  shows "(map_of (liveMounts s) mp = None \<longrightarrow>
            fst (unMountRc p s) = Return (None, Some mount_not_found) \<and>
            liveMounts (snd (unMountRc p s)) = liveMounts s \<and>
            world (snd (unMountRc p s)) = world s \<and>
            unmountCalls (trace (snd (unMountRc p s))) = unmountCalls (trace s)) \<and>
         (fst (unMountRc p s) = Return (None, None) \<longrightarrow>
            fst (unMountRc p (snd (unMountRc p s))) = Return (None, Some mount_not_found))"
proof -
  note reach = unMountRc_reaches [OF assms]
  have first: "fst (unMountRc p s') = Return (None, Some mount_not_found) \<and>
               liveMounts (snd (unMountRc p s')) = liveMounts s' \<and>
               world (snd (unMountRc p s')) = world s' \<and>
               unmountCalls (trace (snd (unMountRc p s'))) = unmountCalls (trace s')"
    if "map_of (liveMounts s') mp = None" for s' :: "'a state"
    using performUnMount_absent [OF that] reach [of s'] by simp
  have second: "fst (unMountRc p (snd (unMountRc p s))) = Return (None, Some mount_not_found)"
    if ok: "fst (unMountRc p s) = Return (None, None)"
  proof -
    from ok reach [of s] have "fst (performUnMount mp s) = Return None"
      by (simp split: outcome.splits)
    then have "map_of (liveMounts (snd (performUnMount mp s))) mp = None"
      by (rule performUnMount_success_deletes)
    then have "map_of (liveMounts (snd (unMountRc p s))) mp = None"
      using reach [of s] by simp
    from first [OF this] show ?thesis by simp
  qed
  from first second show ?thesis by blast
qed

lemma initial_no_record: "map_of (liveMounts (initial (0::nat))) ''/mnt/p'' = None"
  by (simp add: initial_def)

lemma demo_unmount_ok:
  "fst (unMountRc unmountParams (afterMount okMount)) = Return (None, None)"
proof -
  have rec: "map_of (liveMounts (afterMount okMount)) ''/mnt/p'' =
     Some \<lparr>unmountFn = Some okUnmount, MountPoint = ''/mnt/p'', MountedOn = 7, Fs = ''mydrive:''\<rparr>"
    and w: "world (afterMount okMount) = 1"
    using demo_mount [of okMount "Some okUnmount" None 1] by (simp_all add: okMount_def)
  have fn: "unmountFn \<lparr>unmountFn = Some okUnmount, MountPoint = ''/mnt/p'', MountedOn = 7,
                       Fs = ''mydrive:''\<rparr> = Some okUnmount"
    by simp
  have call: "okUnmount (world (afterMount okMount)) = (None, 2)"
    by (simp add: w okUnmount_def)
  from performUnMount_present [OF rec fn call]
       unMountRc_reaches [OF demo_unmount_mountPoint, of "afterMount okMount"]
  show ?thesis by simp
qed

theorem unMountRc_not_found_witness:
  "GetString unmountParams ''mountPoint'' = (''/mnt/p'', None) \<and>
   map_of (liveMounts (initial (0::nat))) ''/mnt/p'' = None \<and>
   fst (unMountRc unmountParams (initial 0)) = Return (None, Some mount_not_found) \<and>
   liveMounts (snd (unMountRc unmountParams (initial 0))) = liveMounts (initial 0) \<and>
   fst (unMountRc unmountParams (afterMount okMount)) = Return (None, None) \<and>
   fst (unMountRc unmountParams (snd (unMountRc unmountParams (afterMount okMount))))
     = Return (None, Some mount_not_found)"
  using unMountRc_not_found [OF demo_unmount_mountPoint, of "initial 0"]
    unMountRc_not_found [OF demo_unmount_mountPoint, of "afterMount okMount"]
    demo_unmount_mountPoint initial_no_record demo_unmount_ok
  by blast

text \<open>
  Claim C6. \<open>unMountRc\<close> on a mount point whose record has an unmount function returns what
  that function returns: when it is an error, the error is returned unchanged and
  \<open>liveMounts\<close> is left as it was; the record is gone afterwards exactly when the unmount
  function returned no error.
\<close>

theorem unMountRc_teardown_error_keeps_record:
  assumes "GetString p ''mountPoint'' = (mp, None)"
    and "map_of (liveMounts s) mp = Some mountInfo" and "unmountFn mountInfo = Some u"
    and "u (world s) = (r, w)"
  shows "fst (unMountRc p s) = Return (None, r) \<and>
         world (snd (unMountRc p s)) = w \<and>
         unmountCalls (trace (snd (unMountRc p s))) = unmountCalls (trace s) @ [mp] \<and>
         (r \<noteq> None \<longrightarrow> liveMounts (snd (unMountRc p s)) = liveMounts s) \<and>
         (r = None \<longrightarrow> liveMounts (snd (unMountRc p s)) = AList.delete mp (liveMounts s)) \<and>
         (map_of (liveMounts (snd (unMountRc p s))) mp = None \<longleftrightarrow> r = None)"
  using performUnMount_present [OF assms(2,3,4)] unMountRc_reaches [OF assms(1), of s] assms(2)
  by (cases r) simp_all

theorem unMountRc_teardown_error_keeps_record_witness:
  "GetString unmountParams ''mountPoint'' = (''/mnt/p'', None) \<and>
   map_of (liveMounts (afterMount busyMount)) ''/mnt/p'' =
     Some \<lparr>unmountFn = Some busyUnmount, MountPoint = ''/mnt/p'', MountedOn = 7,
           Fs = ''mydrive:''\<rparr> \<and>
   busyUnmount (world (afterMount busyMount)) = (Some (External 16), 1) \<and>
   fst (unMountRc unmountParams (afterMount busyMount)) = Return (None, Some (External 16)) \<and>
   liveMounts (snd (unMountRc unmountParams (afterMount busyMount)))
     = liveMounts (afterMount busyMount)"
proof -
  have rec: "map_of (liveMounts (afterMount busyMount)) ''/mnt/p'' =
     Some \<lparr>unmountFn = Some busyUnmount, MountPoint = ''/mnt/p'', MountedOn = 7,
           Fs = ''mydrive:''\<rparr>"
    and w: "world (afterMount busyMount) = 1"
    using demo_mount [of busyMount "Some busyUnmount" None 1] by (simp_all add: busyMount_def)
  have fn: "unmountFn \<lparr>unmountFn = Some busyUnmount, MountPoint = ''/mnt/p'', MountedOn = 7,
                       Fs = ''mydrive:''\<rparr> = Some busyUnmount"
    by simp
  have call: "busyUnmount (world (afterMount busyMount)) = (Some (External 16), 1)"
    by (simp add: w busyUnmount_def)
  from unMountRc_teardown_error_keeps_record [OF demo_unmount_mountPoint rec fn call]
  show ?thesis using demo_unmount_mountPoint rec call by blast
qed

lemma mountRc_registered:
  assumes "GetString p ''mountPoint'' = (mp, None)" and "getFs p = Inr fdst"
    and "indexMountFns s (fst (resolveMountType p s)) = Some f"
    and "f fdst mp (world s) = ((u, err), w)"
  shows "fst (mountRc getFs now p s) = Return (None, err) \<and>
         map_of (liveMounts (snd (mountRc getFs now p s))) mp =
           Some \<lparr>unmountFn = u, MountPoint = mp, MountedOn = now, Fs = Name fdst\<rparr> \<and>
         world (snd (mountRc getFs now p s)) = w \<and>
         unmountCalls (trace (snd (mountRc getFs now p s))) = unmountCalls (trace s)"
proof -
  let ?t = "fst (resolveMountType p s)" and ?s1 = "snd (resolveMountType p s)"
  have run: "mountRc getFs now p s = mountWith now fdst mp ?t ?s1"
    using assms(1,2) by (rule mountRc_reaches)
  have idx: "indexMountFns ?s1 ?t = Some f"
    using assms(3) by simp
  have call: "f fdst mp (world ?s1) = ((u, err), w)"
    using assms(4) by (simp add: resolveMountType_frame)
  from mountWith_registered [OF idx call, of now]
  show ?thesis
    by (simp add: run resolveMountType_calls update_conv')
qed

text \<open>
  Claim C7. A \<open>mountRc\<close> that succeeds at mount point \<open>mp\<close> (the mount function returns an
  unmount function \<open>u\<close> and no error) stores \<open>u\<close>; a following \<open>unMountRc\<close> of \<open>mp\<close> whose
  \<open>u\<close> succeeds returns success and leaves no record for \<open>mp\<close>; over the two calls exactly
  one unmount function call is logged, for \<open>mp\<close>, and the world is the one \<open>u\<close> returned.
\<close>

theorem mount_unmount_round_trip:
  assumes "GetString p ''mountPoint'' = (mp, None)" and "getFs p = Inr fdst"
    and "indexMountFns s (fst (resolveMountType p s)) = Some f"
    and "f fdst mp (world s) = ((Some u, None), w1)"
    and "u w1 = (None, w2)"
    and "GetString q ''mountPoint'' = (mp, None)"
  shows "fst (mountRc getFs now p s) = Return (None, None) \<and>
         map_of (liveMounts (snd (mountRc getFs now p s))) mp =
           Some \<lparr>unmountFn = Some u, MountPoint = mp, MountedOn = now, Fs = Name fdst\<rparr> \<and>
         fst (unMountRc q (snd (mountRc getFs now p s))) = Return (None, None) \<and>
         map_of (liveMounts (snd (unMountRc q (snd (mountRc getFs now p s))))) mp = None \<and>
         world (snd (unMountRc q (snd (mountRc getFs now p s)))) = w2 \<and>
         unmountCalls (trace (snd (unMountRc q (snd (mountRc getFs now p s)))))
           = unmountCalls (trace s) @ [mp]"
proof -
  let ?s1 = "snd (mountRc getFs now p s)"
  let ?mi = "\<lparr>unmountFn = Some u, MountPoint = mp, MountedOn = now, Fs = Name fdst\<rparr>"
  note m = mountRc_registered [where getFs = getFs and now = now, OF assms(1-4)]
  have rec: "map_of (liveMounts ?s1) mp = Some ?mi" using m by simp
  have fn: "unmountFn ?mi = Some u" by simp
  have call: "u (world ?s1) = (None, w2)" using m assms(5) by simp
  from performUnMount_present [OF rec fn call] unMountRc_reaches [OF assms(6), of ?s1] m
  show ?thesis by simp
qed

theorem mount_unmount_round_trip_witness:
  "GetString demoParams ''mountPoint'' = (''/mnt/p'', None) \<and>
   demoGetFs demoParams = Inr demoFs \<and>
   indexMountFns (withMount okMount) (fst (resolveMountType demoParams (withMount okMount)))
     = Some okMount \<and>
   okMount demoFs ''/mnt/p'' (world (withMount okMount)) = ((Some okUnmount, None), 1) \<and>
   okUnmount 1 = (None, 2) \<and>
   GetString unmountParams ''mountPoint'' = (''/mnt/p'', None) \<and>
   fst (mountRc demoGetFs 7 demoParams (withMount okMount)) = Return (None, None) \<and>
   fst (unMountRc unmountParams (snd (mountRc demoGetFs 7 demoParams (withMount okMount))))
     = Return (None, None) \<and>
   map_of (liveMounts (snd (unMountRc unmountParams
       (snd (mountRc demoGetFs 7 demoParams (withMount okMount)))))) ''/mnt/p'' = None \<and>
   unmountCalls (trace (snd (unMountRc unmountParams
       (snd (mountRc demoGetFs 7 demoParams (withMount okMount))))))
     = unmountCalls (trace (withMount okMount)) @ [''/mnt/p'']"
proof -
  have h3: "indexMountFns (withMount okMount)
              (fst (resolveMountType demoParams (withMount okMount))) = Some okMount"
    by (simp add: demo_resolve demo_index)
  have h4: "okMount demoFs ''/mnt/p'' (world (withMount okMount)) = ((Some okUnmount, None), 1)"
    by (simp add: demo_world okMount_def)
  have h5: "okUnmount 1 = (None, 2)"
    by (simp add: okUnmount_def)
  from mount_unmount_round_trip
         [where getFs = demoGetFs and f = okMount and u = okUnmount and now = 7,
          OF demo_mountPoint demo_getFs h3 h4 h5 demo_unmount_mountPoint]
  show ?thesis using demo_mountPoint demo_getFs h3 h4 h5 demo_unmount_mountPoint by blast
qed

lemma rangeKeys_eq: "rangeKeys m acc = acc @ map fst m"
  by (induction m acc rule: rangeKeys.induct) simp_all

lemma rangeValues_eq: "rangeValues m acc = acc @ map snd m"
  by (induction m acc rule: rangeValues.induct) simp_all

lemma mountTypesRc_result:
  "fst (mountTypesRc p s) =
     (Some [(''mountTypes'', VStrings (sort_Strings (map fst (mountFns s))))], None)"
  by (simp add: mountTypesRc_def Let_def rangeKeys_eq)

lemma listMountsRc_result:
  "fst (listMountsRc p s) = (Some [(''mountPoints'', VMountInfos (map snd (liveMounts s)))], None)"
  by (simp add: listMountsRc_def Let_def rangeValues_eq)

lemma threeBackends_keys: "map fst (mountFns threeBackends) = [''mount2'', ''mount'', ''cmount'']"
  by (simp add: threeBackends_def fixture_defs)

lemma sort_three:
  "sort_Strings [''mount2'', ''mount'', ''cmount''] = [''cmount'', ''mount'', ''mount2'']"
  by (simp add: sort_Strings_def)

text \<open>
  Claim C8. In every state \<open>mountTypesRc\<close> returns no error and a list that is sorted, holds
  exactly the keys of \<open>mountFns\<close> (as many entries as the map has), and changes neither map;
  after registering mount2, mount, cmount in that order the list is cmount, mount, mount2;
  on the empty registry it is the empty list.
\<close>

theorem mountTypesRc_sorted_names:
  "(\<exists>ts. fst (mountTypesRc p s) = (Some [(''mountTypes'', VStrings ts)], None) \<and>
         sorted ts \<and> set ts = fst ` set (mountFns s) \<and>
         distinct ts = distinct (map fst (mountFns s)) \<and>
         length ts = length (mountFns s)) \<and>
   mountFns (snd (mountTypesRc p s)) = mountFns s \<and>
   liveMounts (snd (mountTypesRc p s)) = liveMounts s \<and>
   fst (mountTypesRc noParams threeBackends)
     = (Some [(''mountTypes'', VStrings [''cmount'', ''mount'', ''mount2''])], None) \<and>
   fst (mountTypesRc noParams (initial 0)) = (Some [(''mountTypes'', VStrings [])], None)"
proof -
  have "sorted (sort_Strings (map fst (mountFns s))) \<and>
        set (sort_Strings (map fst (mountFns s))) = fst ` set (mountFns s) \<and>
        distinct (sort_Strings (map fst (mountFns s))) = distinct (map fst (mountFns s)) \<and>
        length (sort_Strings (map fst (mountFns s))) = length (mountFns s)"
    by (simp add: sort_Strings_def)
  then have general: "\<exists>ts. fst (mountTypesRc p s) = (Some [(''mountTypes'', VStrings ts)], None) \<and>
         sorted ts \<and> set ts = fst ` set (mountFns s) \<and>
         distinct ts = distinct (map fst (mountFns s)) \<and>
         length ts = length (mountFns s)"
    using mountTypesRc_result [of p s] by blast
  have frame: "mountFns (snd (mountTypesRc p s)) = mountFns s \<and>
               liveMounts (snd (mountTypesRc p s)) = liveMounts s"
    by (simp add: mountTypesRc_def Let_def)
  have three: "fst (mountTypesRc noParams threeBackends)
     = (Some [(''mountTypes'', VStrings [''cmount'', ''mount'', ''mount2''])], None)"
    by (simp add: mountTypesRc_result threeBackends_keys sort_three)
  have none: "fst (mountTypesRc noParams (initial 0)) = (Some [(''mountTypes'', VStrings [])], None)"
    by (simp add: mountTypesRc_result initial_def sort_Strings_def)
  from general frame three none show ?thesis by blast
qed

text \<open>
  Claim C9, as amended. \<open>mountTypesRc\<close> returns its list under the single result field
  \<open>mountTypes\<close> and \<open>listMountsRc\<close> returns its MountInfo values under the single result
  field \<open>mountPoints\<close>, each MountInfo showing the fields MountPoint, MountedOn and Fs.
  (As stated, with the field names \<open>types\<close>, \<open>mounts\<close> and mountPoint, source, mountedOn,
  the claim fails: the results have no such fields.)
\<close>

theorem list_results_field_names:
  "resultField (fst (mountTypesRc p s)) k =
     (if k = ''mountTypes'' then Some (VStrings (sort_Strings (map fst (mountFns s)))) else None) \<and>
   resultField (fst (listMountsRc p s)) k =
     (if k = ''mountPoints'' then Some (VMountInfos (map snd (liveMounts s))) else None) \<and>
   snd (fst (mountTypesRc p s)) = None \<and> snd (fst (listMountsRc p s)) = None \<and>
   map fst (MountInfo_json a) = [''MountPoint'', ''MountedOn'', ''Fs''] \<and>
   map snd (MountInfo_json a) = [JString (MountPoint a), JTime (MountedOn a), JString (Fs a)]"
  by (simp add: resultField_def mountTypesRc_result listMountsRc_result MountInfo_json_def)

lemma afterMount_okMount_live: "liveMounts (afterMount okMount) = [(''/mnt/p'', demoInfo)]"
  by (simp add: afterMount_def mountRc_def resolveMountType_def mountWith_def demoInfo_def
        fixture_defs)

theorem list_results_field_names_counterexample:
  "resultField (fst (mountTypesRc noParams (withMount okMount))) ''types'' = None \<and>
   resultField (fst (mountTypesRc noParams (withMount okMount))) ''mountTypes''
     = Some (VStrings [''mount'']) \<and>
   resultField (fst (listMountsRc noParams (afterMount okMount))) ''mounts'' = None \<and>
   resultField (fst (listMountsRc noParams (afterMount okMount))) ''mountPoints''
     = Some (VMountInfos [demoInfo]) \<and>
   map fst (MountInfo_json demoInfo) \<noteq> [''mountPoint'', ''source'', ''mountedOn'']"
  by (simp add: resultField_def mountTypesRc_result listMountsRc_result MountInfo_json_def
        afterMount_okMount_live sort_Strings_def withMount_def AddRc_def initial_def emit_def)

text \<open>
  Claim C10 at a concrete call. \<open>AddRc\<close> and \<open>mountTypesRc\<close> touch \<open>mountFns\<close> only while
  holding \<open>mountFnsMutex\<close>, but \<open>mountRc\<close> indexes \<open>mountFns\<close> three times without ever
  taking it; no mount function is called with the mutex held.
\<close>

theorem mountRc_reads_mountFns_unlocked:
  "fnsAccessLocked False (trace (AddRc ''mount'' (Some okMount) (initial 0))) \<and>
   fnsAccessLocked False (trace (snd (mountTypesRc noParams (withMount okMount)))) \<and>
   trace (snd (mountRc demoGetFs 7 demoParams (withMount okMount))) =
     [Lock mountFnsMutex, WriteMountFns ''mount'', Unlock mountFnsMutex,
      ReadMountFns ''mount'', ReadMountFns ''mount'', ReadMountFns ''mount'',
      CallMountFn ''mount'' ''/mnt/p'',
      Lock liveMountsMutex, WriteLiveMounts ''/mnt/p'', Unlock liveMountsMutex,
      fs_Debugf ''mydrive:'' ''/mnt/p'' ''mount''] \<and>
   \<not> fnsAccessLocked False (trace (snd (mountRc demoGetFs 7 demoParams (withMount okMount)))) \<and>
   callsOutsideFnsLock False (trace (snd (mountRc demoGetFs 7 demoParams (withMount okMount))))"
  by (simp add: mountTypesRc_def mountRc_def resolveMountType_def mountWith_def fixture_defs)

end
